theory Spec2Isabelle
  imports
    Complex_Main
    "HOL-Library.AList"
    "HOL-Library.Char_ord"
    "HOL-Library.List_Lexorder"
    "HOL-Library.Multiset"
begin

unbundle bit_operations_syntax

section \<open>Python strings\<close>

text \<open>
  A Python \<open>str\<close> is modelled as a \<open>string\<close> whose characters stand for the code points
  below 256. \<open>py_isspace\<close> is \<open>str.isspace\<close> on that range (the characters that
  \<open>str.strip()\<close> removes), \<open>py_lower_char\<close> is \<open>str.lower\<close> on one such character.
\<close>

definition py_isspace :: "char \<Rightarrow> bool" where
  "py_isspace c =
     (let n = (of_char c :: nat)
      in (9 \<le> n \<and> n \<le> 13) \<or> (28 \<le> n \<and> n \<le> 32) \<or> n = 133 \<or> n = 160)"

definition py_lower_char :: "char \<Rightarrow> char" where
  "py_lower_char c =
     (let n = (of_char c :: nat)
      in if (65 \<le> n \<and> n \<le> 90) \<or> (192 \<le> n \<and> n \<le> 222 \<and> n \<noteq> 215)
         then char_of (n + 32) else c)"


definition str_lower :: "string \<Rightarrow> string" where
  "str_lower s = map py_lower_char s"

definition str_lstrip :: "string \<Rightarrow> string" where
  "str_lstrip s = dropWhile py_isspace s"

definition str_rstrip :: "string \<Rightarrow> string" where
  "str_rstrip s = rev (dropWhile py_isspace (rev s))"

definition str_strip :: "string \<Rightarrow> string" where
  "str_strip s = str_rstrip (str_lstrip s)"

text \<open>\<open>sep.join(parts)\<close>.\<close>

fun str_join :: "string \<Rightarrow> string list \<Rightarrow> string" where
  "str_join sep [] = []"
| "str_join sep [x] = x"
| "str_join sep (x # y # ys) = x @ sep @ str_join sep (y # ys)"

text \<open>\<open>sub in s\<close> on strings: \<open>sub\<close> occurs in \<open>s\<close> as a contiguous substring.\<close>

fun starts_with :: "string \<Rightarrow> string \<Rightarrow> bool" where
  "starts_with [] s = True"
| "starts_with (p # ps) [] = False"
| "starts_with (p # ps) (c # cs) = (p = c \<and> starts_with ps cs)"

fun str_contains :: "string \<Rightarrow> string \<Rightarrow> bool" where
  "str_contains sub [] = (sub = [])"
| "str_contains sub (c # cs) = (starts_with sub (c # cs) \<or> str_contains sub cs)"

text \<open>\<open>s[:n]\<close> for a non-negative \<open>n\<close>, and \<open>xs[-n:]\<close> for an integer \<open>n\<close>: with
  \<open>n > 0\<close> the last \<open>n\<close> elements (all of them when the list is shorter), with \<open>n = 0\<close>
  the slice \<open>xs[0:]\<close>, which is the whole list, and with \<open>n < 0\<close> the slice
  \<open>xs[|n|:]\<close>, which drops the first \<open>|n|\<close> elements.\<close>

definition slice_last :: "int \<Rightarrow> 'a list \<Rightarrow> 'a list" where
  "slice_last n xs =
     (if n > 0 then drop (length xs - nat n) xs
      else drop (nat (- n)) xs)"

text \<open>\<open>str.encode()\<close>: UTF-8, for code points below 256. Bytes are integers.\<close>

definition utf8_char :: "char \<Rightarrow> int list" where
  "utf8_char c =
     (let n = (of_char c :: int)
      in if n < 128 then [n] else [192 + n div 64, 128 + n mod 64])"

definition str_encode :: "string \<Rightarrow> int list" where
  "str_encode s = concat (map utf8_char s)"

section \<open>hashlib.md5\<close>

text \<open>
  MD5 (RFC 1321) on a list of bytes. The 32-bit words are integers, every addition is
  reduced modulo \<open>2 ^ 32\<close> by \<open>w32\<close>.
\<close>

definition md5_s :: "nat list" where
  "md5_s = [7,12,17,22,7,12,17,22,7,12,17,22,7,12,17,22,
            5,9,14,20,5,9,14,20,5,9,14,20,5,9,14,20,
            4,11,16,23,4,11,16,23,4,11,16,23,4,11,16,23,
            6,10,15,21,6,10,15,21,6,10,15,21,6,10,15,21]"

definition md5_K :: "int list" where
  "md5_K =
     [0xd76aa478, 0xe8c7b756, 0x242070db, 0xc1bdceee, 0xf57c0faf, 0x4787c62a, 0xa8304613, 0xfd469501,
      0x698098d8, 0x8b44f7af, 0xffff5bb1, 0x895cd7be, 0x6b901122, 0xfd987193, 0xa679438e, 0x49b40821,
      0xf61e2562, 0xc040b340, 0x265e5a51, 0xe9b6c7aa, 0xd62f105d, 0x02441453, 0xd8a1e681, 0xe7d3fbc8,
      0x21e1cde6, 0xc33707d6, 0xf4d50d87, 0x455a14ed, 0xa9e3e905, 0xfcefa3f8, 0x676f02d9, 0x8d2a4c8a,
      0xfffa3942, 0x8771f681, 0x6d9d6122, 0xfde5380c, 0xa4beea44, 0x4bdecfa9, 0xf6bb4b60, 0xbebfbc70,
      0x289b7ec6, 0xeaa127fa, 0xd4ef3085, 0x04881d05, 0xd9d4d039, 0xe6db99e5, 0x1fa27cf8, 0xc4ac5665,
      0xf4292244, 0x432aff97, 0xab9423a7, 0xfc93a039, 0x655b59c3, 0x8f0ccc92, 0xffeff47d, 0x85845dd1,
      0x6fa87e4f, 0xfe2ce6e0, 0xa3014314, 0x4e0811a1, 0xf7537e82, 0xbd3af235, 0x2ad7d2bb, 0xeb86d391]"

definition w32 :: "int \<Rightarrow> int" where
  "w32 x = x mod 4294967296"

definition not32 :: "int \<Rightarrow> int" where
  "not32 x = 4294967295 - x"

definition rotl32 :: "int \<Rightarrow> nat \<Rightarrow> int" where
  "rotl32 x s = w32 (x * 2 ^ s) + x div 2 ^ (32 - s)"

definition md5_F :: "nat \<Rightarrow> int \<Rightarrow> int \<Rightarrow> int \<Rightarrow> int" where
  "md5_F i b c d =
     (if i < 16 then (b AND c) OR (not32 b AND d)
      else if i < 32 then (d AND b) OR (not32 d AND c)
      else if i < 48 then b XOR c XOR d
      else c XOR (b OR not32 d))"

definition md5_g :: "nat \<Rightarrow> nat" where
  "md5_g i =
     (if i < 16 then i
      else if i < 32 then (5 * i + 1) mod 16
      else if i < 48 then (3 * i + 5) mod 16
      else (7 * i) mod 16)"

definition md5_step ::
  "int list \<Rightarrow> int \<times> int \<times> int \<times> int \<Rightarrow> nat \<Rightarrow> int \<times> int \<times> int \<times> int" where
  "md5_step m st i =
     (case st of (a, b, c, d) \<Rightarrow>
        let f = w32 (md5_F i b c d + a + md5_K ! i + m ! md5_g i)
        in (d, w32 (b + rotl32 f (md5_s ! i)), b, c))"

fun le_words :: "int list \<Rightarrow> int list" where
  "le_words (b0 # b1 # b2 # b3 # bs) =
     (b0 + 256 * b1 + 65536 * b2 + 16777216 * b3) # le_words bs"
| "le_words bs = []"

definition le_bytes4 :: "int \<Rightarrow> int list" where
  "le_bytes4 x = [x mod 256, x div 256 mod 256, x div 65536 mod 256, x div 16777216 mod 256]"

definition md5_block :: "int \<times> int \<times> int \<times> int \<Rightarrow> int list \<Rightarrow> int \<times> int \<times> int \<times> int" where
  "md5_block h ws =
     (case h of (a0, b0, c0, d0) \<Rightarrow>
        case foldl (md5_step ws) h [0..<64] of
          (a, b, c, d) \<Rightarrow> (w32 (a0 + a), w32 (b0 + b), w32 (c0 + c), w32 (d0 + d)))"

fun md5_blocks :: "int \<times> int \<times> int \<times> int \<Rightarrow> int list \<Rightarrow> int \<times> int \<times> int \<times> int" where
  "md5_blocks h (w0 # w1 # w2 # w3 # w4 # w5 # w6 # w7 # w8 # w9 # w10 # w11 # w12 # w13 # w14 # w15 # ws) =
     md5_blocks (md5_block h [w0, w1, w2, w3, w4, w5, w6, w7, w8, w9, w10, w11, w12, w13, w14, w15]) ws"
| "md5_blocks h ws = h"

definition md5_pad :: "int list \<Rightarrow> int list" where
  "md5_pad bs =
     bs @ [128] @ replicate ((119 - length bs mod 64) mod 64) 0
        @ le_bytes4 (w32 (8 * int (length bs)))
        @ le_bytes4 (8 * int (length bs) div 4294967296 mod 4294967296)"

definition hex_digit :: "int \<Rightarrow> char" where
  "hex_digit n = ''0123456789abcdef'' ! nat n"

definition hex_byte :: "int \<Rightarrow> string" where
  "hex_byte b = [hex_digit (b div 16), hex_digit (b mod 16)]"

definition md5_digest :: "int list \<Rightarrow> int list" where
  "md5_digest bs =
     (case md5_blocks (0x67452301, 0xefcdab89, 0x98badcfe, 0x10325476) (le_words (md5_pad bs)) of
        (a, b, c, d) \<Rightarrow> le_bytes4 a @ le_bytes4 b @ le_bytes4 c @ le_bytes4 d)"

definition md5_hexdigest :: "int list \<Rightarrow> string" where
  "md5_hexdigest bs = concat (map hex_byte (md5_digest bs))"

section \<open>json.dumps(filters, sort\_keys=True)\<close>

text \<open>
  The values a filter dictionary holds: \<open>None\<close>, booleans, integers, strings, lists and
  dictionaries with string keys (an association list in insertion order; a Python
  dictionary has no duplicate keys). Floating-point values are not part of the model.
\<close>

datatype json =
    JNull
  | JBool bool
  | JInt int
  | JStr string
  | JList "json list"
  | JDict "(string \<times> json) list"

definition digit_char :: "nat \<Rightarrow> char" where
  "digit_char n = char_of (48 + n)"

function show_nat :: "nat \<Rightarrow> string" where
  "show_nat n = (if n < 10 then [digit_char n] else show_nat (n div 10) @ [digit_char (n mod 10)])"
  by pat_completeness auto
termination
  by (relation "measure id") auto

declare show_nat.simps [simp del]

definition show_int :: "int \<Rightarrow> string" where
  "show_int i = (if i < 0 then CHR ''-'' # show_nat (nat (- i)) else show_nat (nat i))"

text \<open>String escaping of \<open>json.dumps\<close> with its default \<open>ensure_ascii=True\<close>.\<close>

definition json_escape_char :: "char \<Rightarrow> string" where
  "json_escape_char c =
     (let n = (of_char c :: nat)
      in if n = 34 then [CHR 0x5C, CHR 0x22]
         else if n = 92 then [CHR 0x5C, CHR 0x5C]
         else if n = 10 then [CHR 0x5C, CHR ''n'']
         else if n = 13 then [CHR 0x5C, CHR ''r'']
         else if n = 9 then [CHR 0x5C, CHR ''t'']
         else if n = 12 then [CHR 0x5C, CHR ''f'']
         else if n = 8 then [CHR 0x5C, CHR ''b'']
         else if n < 32 \<or> 126 < n
           then [CHR 0x5C, CHR ''u'', CHR ''0'', CHR ''0'',
                 hex_digit (int n div 16), hex_digit (int n mod 16)]
         else [c])"

definition json_quote :: "string \<Rightarrow> string" where
  "json_quote s = CHR 0x22 # concat (map json_escape_char s) @ [CHR 0x22]"

lemma size_snd_item:
  "kv \<in> set kvs \<Longrightarrow> size (snd kv) < Suc (size_list (size_prod (\<lambda>_. 0) size) kvs)"
  by (induction kvs) (auto simp: less_Suc_eq)

function json_dumps :: "json \<Rightarrow> string" where
  "json_dumps JNull = ''null''"
| "json_dumps (JBool b) = (if b then ''true'' else ''false'')"
| "json_dumps (JInt i) = show_int i"
| "json_dumps (JStr s) = json_quote s"
| "json_dumps (JList xs) = ''['' @ str_join '', '' (map json_dumps xs) @ '']''"
| "json_dumps (JDict kvs) =
     ''{'' @ str_join '', ''
              (map (\<lambda>kv. json_quote (fst kv) @ '': '' @ json_dumps (snd kv)) (sort_key fst kvs))
           @ ''}''"
  by pat_completeness auto
termination
  by (relation "measure size") (auto simp: less_Suc_eq_le size_list_estimation' dest: size_snd_item)

section \<open>Dictionaries of statistics\<close>

text \<open>
  The \<open>get_stats\<close> functions return a Python dictionary: an association list from the key
  to its value, in insertion order. A value is an integer, a float (modelled as a rational
  number) or a nested dictionary. A key that the dictionary does not have is a key that
  \<open>map_of\<close> sends to \<open>None\<close>.
\<close>

datatype stat = SInt int | SNum rat | SDict "(string \<times> stat) list"

text \<open>\<open>round(x, ndigits)\<close> on exact rationals, ties to the even neighbour. The source rounds
  binary floating-point numbers; the model computes with the exact values.\<close>

definition py_round :: "rat \<Rightarrow> nat \<Rightarrow> rat" where
  "py_round x ndigits =
     (let y = x * 10 ^ ndigits;
          f = \<lfloor>y\<rfloor>;
          d = y - of_int f;
          r = (if d < 1 / 2 then f else if 1 / 2 < d then f + 1 else if even f then f else f + 1)
      in of_int r / 10 ^ ndigits)"

section \<open>utils/cache\_manager.py: ResponseCache\<close>

text \<open>
  Timestamps (\<open>datetime.now()\<close>) and the time to live (\<open>timedelta(hours=ttl_hours)\<close>) are
  integers counting microseconds; the clock reading is an argument of every operation that
  calls \<open>datetime.now()\<close>. \<open>cache\<close> is the in-memory dictionary \<open>self.cache\<close>, from the
  key to the entry, and \<open>cache_file\<close> the content of \<open>response_cache.json\<close> (\<open>None\<close>
  while the file does not exist).
\<close>

type_synonym filters = "(string \<times> json) list option"

record cache_entry =
  ce_query :: string
  ce_agent_type :: string
  ce_response :: string
  ce_timestamp :: int
  ce_filters :: filters

record ResponseCache =
  ttl :: int
  cache :: "(string \<times> cache_entry) list"
  cache_file :: "(string \<times> cache_entry) list option"

definition generate_key :: "string \<Rightarrow> string \<Rightarrow> filters \<Rightarrow> string" where
  "generate_key query agent_type filters =
     (let key_parts =
            [str_strip (str_lower query), agent_type]
            @ (case filters of
                 None \<Rightarrow> []
               | Some f \<Rightarrow> if f = [] then [] else [json_dumps (JDict f)]);
          key_string = str_join ''|'' key_parts
      in md5_hexdigest (str_encode key_string))"

definition save_cache :: "ResponseCache \<Rightarrow> ResponseCache" where
  "save_cache c = c\<lparr>cache_file := Some (cache c)\<rparr>"

definition ResponseCache_get ::
  "ResponseCache \<Rightarrow> string \<Rightarrow> string \<Rightarrow> filters \<Rightarrow> int \<Rightarrow> string option \<times> ResponseCache" where
  "ResponseCache_get c query agent_type filters now =
     (let key = generate_key query agent_type filters
      in case map_of (cache c) key of
           None \<Rightarrow> (None, c)
         | Some entry \<Rightarrow>
             if now - ce_timestamp entry > ttl c
             then (None, save_cache (c\<lparr>cache := AList.delete key (cache c)\<rparr>))
             else (Some (ce_response entry), c))"

definition ResponseCache_set ::
  "ResponseCache \<Rightarrow> string \<Rightarrow> string \<Rightarrow> string \<Rightarrow> filters \<Rightarrow> int \<Rightarrow> ResponseCache" where
  "ResponseCache_set c query agent_type response filters now =
     (let key = generate_key query agent_type filters;
          entry = \<lparr>ce_query = query, ce_agent_type = agent_type, ce_response = response,
                   ce_timestamp = now, ce_filters = filters\<rparr>
      in save_cache (c\<lparr>cache := AList.update key entry (cache c)\<rparr>))"

definition ResponseCache_clear :: "ResponseCache \<Rightarrow> ResponseCache" where
  "ResponseCache_clear c = save_cache (c\<lparr>cache := []\<rparr>)"

definition clear_expired :: "ResponseCache \<Rightarrow> int \<Rightarrow> int \<times> ResponseCache" where
  "clear_expired c now =
     (let keys_to_remove = map fst (filter (\<lambda>kv. now - ce_timestamp (snd kv) > ttl c) (cache c));
          c' = c\<lparr>cache := foldl (\<lambda>al key. AList.delete key al) (cache c) keys_to_remove\<rparr>;
          removed_count = int (length keys_to_remove)
      in if removed_count > 0 then (removed_count, save_cache c') else (removed_count, c'))"

text \<open>The constructor; a cache file that exists holds well-formed entries.\<close>

definition ResponseCache_init ::
  "int \<Rightarrow> (string \<times> cache_entry) list option \<Rightarrow> int \<Rightarrow> ResponseCache" where
  "ResponseCache_init ttl_hours file now =
     (let c = \<lparr>ttl = ttl_hours * 3600000000, cache = [], cache_file = file\<rparr>
      in case file of
           None \<Rightarrow> c
         | Some entries \<Rightarrow> snd (clear_expired (c\<lparr>cache := entries\<rparr>) now))"



section \<open>utils/memory\_manager.py: ConversationMemory\<close>

record exchange =
  ex_timestamp :: int
  ex_user :: string
  ex_agent :: string
  ex_agent_type :: string
  ex_metadata :: "(string \<times> json) list"

text \<open>\<open>sessions\<close> is \<open>self.sessions\<close> and \<open>session_files\<close> the files \<open>{session_id}.json\<close>.\<close>

record ConversationMemory =
  max_history :: int
  sessions :: "(string \<times> exchange list) list"
  session_files :: "(string \<times> exchange list) list"

definition ConversationMemory_init :: "int \<Rightarrow> (string \<times> exchange list) list \<Rightarrow> ConversationMemory" where
  "ConversationMemory_init n files = \<lparr>max_history = n, sessions = [], session_files = files\<rparr>"

definition save_session :: "ConversationMemory \<Rightarrow> string \<Rightarrow> ConversationMemory" where
  "save_session m session_id =
     (case map_of (sessions m) session_id of
        None \<Rightarrow> m
      | Some history \<Rightarrow> m\<lparr>session_files := AList.update session_id history (session_files m)\<rparr>)"

definition add_exchange ::
  "ConversationMemory \<Rightarrow> string \<Rightarrow> string \<Rightarrow> string \<Rightarrow> string \<Rightarrow> (string \<times> json) list option
     \<Rightarrow> int \<Rightarrow> ConversationMemory" where
  "add_exchange m session_id user_query agent_response agent_type metadata now =
     (let history = (case map_of (sessions m) session_id of None \<Rightarrow> [] | Some h \<Rightarrow> h);
          exchange = \<lparr>ex_timestamp = now, ex_user = user_query, ex_agent = agent_response,
                      ex_agent_type = agent_type,
                      ex_metadata = (case metadata of None \<Rightarrow> [] | Some md \<Rightarrow> md)\<rparr>;
          appended = history @ [exchange];
          trimmed = (if int (length appended) > max_history m
                     then slice_last (max_history m) appended else appended)
      in save_session (m\<lparr>sessions := AList.update session_id trimmed (sessions m)\<rparr>) session_id)"

definition get_history :: "ConversationMemory \<Rightarrow> string \<Rightarrow> int option \<Rightarrow> exchange list" where
  "get_history m session_id last_n =
     (case map_of (sessions m) session_id of
        None \<Rightarrow> []
      | Some history \<Rightarrow>
          (case last_n of
             None \<Rightarrow> history
           | Some n \<Rightarrow> if n \<noteq> 0 then slice_last n history else history))"

definition get_context_string :: "ConversationMemory \<Rightarrow> string \<Rightarrow> int \<Rightarrow> string" where
  "get_context_string m session_id last_n =
     (let history = get_history m session_id (Some last_n)
      in if history = [] then ''No previous conversation history.''
         else str_join [CHR 0x0A]
                (''Previous conversation:''
                 # concat (map (\<lambda>e. [CHR 0x0A # ''User: '' @ ex_user e,
                                      ''Assistant: '' @ take 200 (ex_agent e) @ ''...''])
                             history)))"

definition clear_session :: "ConversationMemory \<Rightarrow> string \<Rightarrow> ConversationMemory" where
  "clear_session m session_id =
     (case map_of (sessions m) session_id of
        None \<Rightarrow> m
      | Some _ \<Rightarrow> m\<lparr>sessions := AList.delete session_id (sessions m),
                    session_files := AList.delete session_id (session_files m)\<rparr>)"

definition load_session :: "ConversationMemory \<Rightarrow> string \<Rightarrow> bool \<times> ConversationMemory" where
  "load_session m session_id =
     (case map_of (session_files m) session_id of
        None \<Rightarrow> (False, m)
      | Some history \<Rightarrow> (True, m\<lparr>sessions := AList.update session_id history (sessions m)\<rparr>))"

section \<open>utils/observability.py: PerformanceMonitor\<close>

text \<open>Response times are floats in the source and rational numbers here.\<close>

record log_entry =
  le_timestamp :: int
  le_session_id :: string
  le_query :: string
  le_agent_type :: string
  le_response_length :: nat
  le_response_time_seconds :: rat
  le_success :: bool
  le_error :: "string option"
  le_metadata :: "(string \<times> json) list"

text \<open>\<open>metrics\<close> is \<open>self.metrics\<close>, \<open>log_file\<close> the lines appended to the query log.\<close>

record PerformanceMonitor =
  metrics :: "log_entry list"
  log_file :: "log_entry list"

definition PerformanceMonitor_init :: "log_entry list \<Rightarrow> PerformanceMonitor" where
  "PerformanceMonitor_init file = \<lparr>metrics = [], log_file = file\<rparr>"

definition log_query ::
  "PerformanceMonitor \<Rightarrow> string \<Rightarrow> string \<Rightarrow> string \<Rightarrow> string \<Rightarrow> rat \<Rightarrow> bool \<Rightarrow> string option
     \<Rightarrow> (string \<times> json) list option \<Rightarrow> int \<Rightarrow> PerformanceMonitor" where
  "log_query m session_id query agent_type response response_time success error metadata now =
     (let log_entry = \<lparr>le_timestamp = now, le_session_id = session_id, le_query = query,
                       le_agent_type = agent_type, le_response_length = length response,
                       le_response_time_seconds = py_round response_time 3,
                       le_success = success, le_error = error,
                       le_metadata = (case metadata of None \<Rightarrow> [] | Some md \<Rightarrow> md)\<rparr>
      in m\<lparr>metrics := metrics m @ [log_entry], log_file := log_file m @ [log_entry]\<rparr>)"







section \<open>second/utils/feedback\_system.py: FeedbackCollector\<close>

record feedback_entry =
  fb_id :: int
  fb_timestamp :: int
  fb_session_id :: string
  fb_query :: string
  fb_response :: string
  fb_rating :: int
  fb_comment :: string
  fb_agent_type :: string

record FeedbackCollector =
  feedbacks :: "feedback_entry list"
  feedback_file :: "feedback_entry list"

definition FeedbackCollector_init :: "feedback_entry list \<Rightarrow> FeedbackCollector" where
  "FeedbackCollector_init file = \<lparr>feedbacks = file, feedback_file = file\<rparr>"

definition add_feedback ::
  "FeedbackCollector \<Rightarrow> string \<Rightarrow> string \<Rightarrow> string \<Rightarrow> int \<Rightarrow> string \<Rightarrow> string \<Rightarrow> int
     \<Rightarrow> int \<times> FeedbackCollector" where
  "add_feedback fc session_id query response rating comment agent_type now =
     (let feedback = \<lparr>fb_id = int (length (feedbacks fc)) + 1, fb_timestamp = now,
                      fb_session_id = session_id, fb_query = query,
                      fb_response = take 200 response, fb_rating = rating,
                      fb_comment = comment, fb_agent_type = agent_type\<rparr>
      in (fb_id feedback,
          fc\<lparr>feedbacks := feedbacks fc @ [feedback],
             feedback_file := feedback_file fc @ [feedback]\<rparr>))"

fun ratings_by_agent ::
  "(string \<times> int \<times> int list) list \<Rightarrow> feedback_entry list \<Rightarrow> (string \<times> int \<times> int list) list" where
  "ratings_by_agent by_agent [] = by_agent"
| "ratings_by_agent by_agent (fb # rest) =
     (let agent = fb_agent_type fb;
          old = (case map_of by_agent agent of None \<Rightarrow> (0, []) | Some cr \<Rightarrow> cr)
      in ratings_by_agent (AList.update agent (fst old + 1, snd old @ [fb_rating fb]) by_agent) rest)"

definition int_mean :: "int list \<Rightarrow> rat" where
  "int_mean xs = of_int (sum_list xs) / of_nat (length xs)"

text \<open>
  The loop \<open>for agent in by_agent: ratings = by_agent[agent]['ratings']; ...\<close> binds the
  function's variable \<open>ratings\<close> anew in every iteration; \<open>ratings_after_loop\<close> is its value
  when the loop is left, which the entries \<open>thumbs_up\<close> and \<open>thumbs_down\<close> of the returned
  dictionary then read.
\<close>

definition ratings_after_loop :: "int list \<Rightarrow> (string \<times> int \<times> int list) list \<Rightarrow> int list" where
  "ratings_after_loop ratings by_agent = foldl (\<lambda>ratings acr. snd (snd acr)) ratings by_agent"

definition get_feedback_stats :: "FeedbackCollector \<Rightarrow> (string \<times> stat) list" where
  "get_feedback_stats fc =
     (if feedbacks fc = []
      then [(''total_feedbacks'', SInt 0), (''avg_rating'', SInt 0), (''satisfaction_rate'', SInt 0)]
      else
        let total = int (length (feedbacks fc));
            ratings = map fb_rating (feedbacks fc);
            avg_rating = int_mean ratings;
            satisfied = int (length (filter (\<lambda>r. r \<ge> 4) ratings));
            satisfaction_rate = of_int satisfied / of_int total * 100;
            by_agent = ratings_by_agent [] (feedbacks fc);
            ratings = ratings_after_loop ratings by_agent
        in [(''total_feedbacks'', SInt total),
            (''avg_rating'', SNum (py_round avg_rating 2)),
            (''satisfaction_rate'', SNum (py_round satisfaction_rate 1)),
            (''thumbs_up'', SInt (int (length (filter (\<lambda>r. r \<ge> 4) ratings)))),
            (''thumbs_down'', SInt (int (length (filter (\<lambda>r. r < 4) ratings)))),
            (''by_agent'',
               SDict (map (\<lambda>acr. (fst acr,
                                    SDict [(''count'', SInt (fst (snd acr))),
                                           (''avg_rating'', SNum (py_round (int_mean (snd (snd acr))) 2))]))
                          by_agent))])"

section \<open>second/agents/supervisor\_agent.py: SupervisorAgent\<close>

text \<open>
  The language model and the two responders are collaborators outside the dispatcher.
  A \<open>world\<close> gives what each of them answers: the raw completion of the classification
  prompt built from a query, the dictionary \<open>KnowledgeAgent.query\<close> returns, the dictionary
  \<open>MarketingAgent.generate_campaign\<close> returns, or the exception the call raises.
  An exception is the value \<open>Exception msg\<close>, with \<open>msg\<close> its \<open>str(e)\<close>.
\<close>

datatype error = Exception string

record source_ref =
  sr_source :: string
  sr_doc_type :: string
  sr_loan_type :: string
  sr_relevance :: rat
  sr_preview :: string

record knowledge_result =
  kr_answer :: string
  kr_sources :: "source_ref list"

record campaign =
  cm_campaign_type :: string
  cm_target_audience :: string
  cm_product_type :: string
  cm_content :: string
  cm_generated_at :: int
  cm_status :: string

record world =
  chat_completion :: "string \<Rightarrow> error + string"
  knowledge_agent_query :: "string \<Rightarrow> int \<Rightarrow> filters \<Rightarrow> error + knowledge_result"
  marketing_generate_campaign :: "string \<Rightarrow> string \<Rightarrow> error + campaign"

text \<open>The dictionary \<open>route_query\<close> returns; \<open>None\<close> is a key the dictionary lacks.\<close>

record response =
  agent :: string
  response_type :: string
  answer :: string
  from_cache :: "bool option"
  campaign :: "campaign option"
  sources :: "source_ref list option"

text \<open>\<open>calls\<close> records, in order, every call the dispatcher makes to a collaborator.\<close>

datatype call =
    Classify string
  | Knowledge_query string int filters
  | Generate_campaign string string

record SupervisorAgent =
  enable_memory :: bool
  enable_cache :: bool
  enable_monitoring :: bool
  enable_feedback :: bool
  memory :: ConversationMemory
  response_cache :: ResponseCache
  monitor :: PerformanceMonitor
  feedback :: FeedbackCollector
  calls :: "call list"

definition classify_query :: "world \<Rightarrow> string \<Rightarrow> error + string" where
  "classify_query w query =
     (case chat_completion w query of
        Inl e \<Rightarrow> Inl e
      | Inr content \<Rightarrow>
          let classification = str_lower (str_strip content)
          in if str_contains ''marketing'' classification
             then Inr ''marketing'' else Inr ''knowledge'')"

definition campaign_type_of :: "string \<Rightarrow> string" where
  "campaign_type_of query =
     (if str_contains ''email'' (str_lower query) then ''email''
      else if str_contains ''sms'' (str_lower query) then ''sms''
      else if str_contains ''blog'' (str_lower query) then ''blog''
      else if str_contains ''poster'' (str_lower query) then ''poster''
      else ''social_media'')"

definition target_audience_of :: "string \<Rightarrow> string" where
  "target_audience_of query =
     (if str_contains ''self-employed'' (str_lower query)
         \<or> str_contains ''self employed'' (str_lower query) then ''self_employed''
      else if str_contains ''young'' (str_lower query) then ''young_professionals''
      else if str_contains ''family'' (str_lower query)
         \<or> str_contains ''families'' (str_lower query) then ''families''
      else ''salaried'')"

text \<open>The branch on \<open>agent_type\<close>: the call made, and the pair of \<open>response\<close> and
  \<open>result\<close> it leaves, or the exception of the responder.\<close>

definition responder_call :: "string \<Rightarrow> string \<Rightarrow> int \<Rightarrow> filters \<Rightarrow> call" where
  "responder_call agent_type query n_results filters =
     (if agent_type = ''marketing''
      then Generate_campaign (campaign_type_of query) (target_audience_of query)
      else Knowledge_query query n_results filters)"

definition invoke_responder ::
  "world \<Rightarrow> string \<Rightarrow> string \<Rightarrow> int \<Rightarrow> filters \<Rightarrow> error + string \<times> response" where
  "invoke_responder w agent_type query n_results filters =
     (if agent_type = ''marketing''
      then (case marketing_generate_campaign w (campaign_type_of query) (target_audience_of query) of
              Inl e \<Rightarrow> Inl e
            | Inr c \<Rightarrow>
                Inr (cm_content c,
                     \<lparr>agent = ''marketing'', response_type = ''campaign'', answer = cm_content c,
                      from_cache = None, campaign = Some c, sources = None\<rparr>))
      else (case knowledge_agent_query w query n_results filters of
              Inl e \<Rightarrow> Inl e
            | Inr r \<Rightarrow>
                Inr (kr_answer r,
                     \<lparr>agent = ''knowledge'', response_type = ''answer'', answer = kr_answer r,
                      from_cache = None, campaign = None, sources = Some (kr_sources r)\<rparr>)))"

text \<open>
  The body of the \<open>try\<close> block after a cache miss. It yields what the block does (the
  returned dictionary or the raised exception), the local variable \<open>result\<close> as the
  \<open>finally\<close> block finds it (\<open>None\<close> for the empty dictionary it starts as) and the new state.
  One clock reading \<open>now\<close> serves every \<open>datetime.now()\<close> of the dispatch.
\<close>

definition route_miss ::
  "world \<Rightarrow> SupervisorAgent \<Rightarrow> string \<Rightarrow> string \<Rightarrow> int \<Rightarrow> filters \<Rightarrow> int
     \<Rightarrow> (error + response) \<times> response option \<times> SupervisorAgent" where
  "route_miss w s query session_id n_results filters now =
     (let context = (if enable_memory s then get_context_string (memory s) session_id 3 else []);
          s1 = s\<lparr>calls := calls s @ [Classify query]\<rparr>
      in case classify_query w query of
           Inl e \<Rightarrow> (Inl e, None, s1)
         | Inr agent_type \<Rightarrow>
             let s2 = s1\<lparr>calls := calls s1 @ [responder_call agent_type query n_results filters]\<rparr>
             in (case invoke_responder w agent_type query n_results filters of
                   Inl e \<Rightarrow> (Inl e, None, s2)
                 | Inr rr \<Rightarrow>
                     let s3 = (if enable_cache s2
                               then s2\<lparr>response_cache :=
                                         ResponseCache_set (response_cache s2) query agent_type (fst rr) None now\<rparr>
                               else s2);
                         s4 = (if enable_memory s3
                               then s3\<lparr>memory :=
                                         add_exchange (memory s3) session_id query (fst rr) agent_type None now\<rparr>
                               else s3)
                     in (Inr (snd rr), Some (snd rr), s4)))"

definition route_try ::
  "world \<Rightarrow> SupervisorAgent \<Rightarrow> string \<Rightarrow> string \<Rightarrow> int \<Rightarrow> filters \<Rightarrow> int
     \<Rightarrow> (error + response) \<times> response option \<times> SupervisorAgent" where
  "route_try w s query session_id n_results filters now =
     (if enable_cache s
      then (case ResponseCache_get (response_cache s) query ''any'' None now of
              (cached_response, c) \<Rightarrow>
                let s0 = s\<lparr>response_cache := c\<rparr>
                in (case cached_response of
                      None \<Rightarrow> route_miss w s0 query session_id n_results filters now
                    | Some r \<Rightarrow>
                        if r \<noteq> []
                        then (Inr \<lparr>agent = ''cached'', response_type = ''cached'', answer = r,
                                   from_cache = Some True, campaign = None, sources = None\<rparr>,
                              None, s0)
                        else route_miss w s0 query session_id n_results filters now))
      else route_miss w s query session_id n_results filters now)"

text \<open>
  \<open>route_query\<close>: the \<open>try\<close> block, then the \<open>finally\<close> block, which logs with the local
  variables \<open>result\<close>, \<open>success\<close> and \<open>error_msg\<close>; \<open>elapsed\<close> is the measured
  \<open>time.time() - start_time\<close>. An exception is raised again after the log is written.
\<close>

definition route_query ::
  "world \<Rightarrow> SupervisorAgent \<Rightarrow> string \<Rightarrow> string \<Rightarrow> int \<Rightarrow> filters \<Rightarrow> int \<Rightarrow> rat
     \<Rightarrow> (error + response) \<times> SupervisorAgent" where
  "route_query w s query session_id n_results filters now elapsed =
     (case route_try w s query session_id n_results filters now of
        (outcome, result, s') \<Rightarrow>
          let success = (case outcome of Inl _ \<Rightarrow> False | Inr _ \<Rightarrow> True);
              error_msg = (case outcome of Inl (Exception msg) \<Rightarrow> Some msg | Inr _ \<Rightarrow> None)
          in (outcome,
              if enable_monitoring s'
              then s'\<lparr>monitor :=
                        log_query (monitor s') session_id query
                          (case result of None \<Rightarrow> ''error'' | Some r \<Rightarrow> agent r)
                          (case result of None \<Rightarrow> [] | Some r \<Rightarrow> answer r)
                          elapsed success error_msg None now\<rparr>
              else s'))"

definition submit_feedback ::
  "SupervisorAgent \<Rightarrow> string \<Rightarrow> string \<Rightarrow> string \<Rightarrow> int \<Rightarrow> string \<Rightarrow> string \<Rightarrow> int
     \<Rightarrow> int option \<times> SupervisorAgent" where
  "submit_feedback s session_id query response rating comment agent_type now =
     (if enable_feedback s
      then (case add_feedback (feedback s) session_id query response rating comment agent_type now of
              (fid, fc) \<Rightarrow> (Some fid, s\<lparr>feedback := fc\<rparr>))
      else (None, s))"

text \<open>The constructor: the flags, fresh subsystems over the files found on disk, no call made.\<close>

definition SupervisorAgent_init ::
  "bool \<Rightarrow> bool \<Rightarrow> bool \<Rightarrow> bool \<Rightarrow> (string \<times> exchange list) list
     \<Rightarrow> (string \<times> cache_entry) list option \<Rightarrow> log_entry list \<Rightarrow> feedback_entry list \<Rightarrow> int
     \<Rightarrow> SupervisorAgent" where
  "SupervisorAgent_init em ec emon ef sessions_on_disk cache_on_disk log_on_disk feedback_on_disk now =
     \<lparr>enable_memory = em, enable_cache = ec, enable_monitoring = emon, enable_feedback = ef,
      memory = ConversationMemory_init 10 sessions_on_disk,
      response_cache = ResponseCache_init 24 cache_on_disk now,
      monitor = PerformanceMonitor_init log_on_disk,
      feedback = FeedbackCollector_init feedback_on_disk,
      calls = []\<rparr>"

text \<open>A sequence of dispatches, one after the other, with the outcome of each.\<close>

record dispatch =
  d_query :: string
  d_session_id :: string
  d_n_results :: int
  d_filters :: filters
  d_now :: int
  d_elapsed :: rat

fun run_dispatches ::
  "world \<Rightarrow> SupervisorAgent \<Rightarrow> dispatch list \<Rightarrow> (error + response) list \<times> SupervisorAgent" where
  "run_dispatches w s [] = ([], s)"
| "run_dispatches w s (d # ds) =
     (case route_query w s (d_query d) (d_session_id d) (d_n_results d) (d_filters d)
             (d_now d) (d_elapsed d) of
        (outcome, s') \<Rightarrow>
          (case run_dispatches w s' ds of (outcomes, s'') \<Rightarrow> (outcome # outcomes, s'')))"

section \<open>Notions used in the statements\<close>


text \<open>A sequence of \<open>add_exchange\<close> calls for one session, the exchange each call
  appends, and the last \<open>n\<close> elements of a list.\<close>

record add_call =
  a_user :: string
  a_agent :: string
  a_agent_type :: string
  a_metadata :: "(string \<times> json) list option"
  a_now :: int

definition exchange_of :: "add_call \<Rightarrow> exchange" where
  "exchange_of a =
     \<lparr>ex_timestamp = a_now a, ex_user = a_user a, ex_agent = a_agent a,
      ex_agent_type = a_agent_type a,
      ex_metadata = (case a_metadata a of None \<Rightarrow> [] | Some md \<Rightarrow> md)\<rparr>"

fun add_exchanges :: "ConversationMemory \<Rightarrow> string \<Rightarrow> add_call list \<Rightarrow> ConversationMemory" where
  "add_exchanges m session_id [] = m"
| "add_exchanges m session_id (a # as) =
     add_exchanges
       (add_exchange m session_id (a_user a) (a_agent a) (a_agent_type a) (a_metadata a) (a_now a))
       session_id as"

definition last_n :: "nat \<Rightarrow> 'a list \<Rightarrow> 'a list" where
  "last_n n xs = drop (length xs - n) xs"

section \<open>Example states\<close>

text \<open>Concrete states on which the theorems below are instantiated.\<close>

definition cache_1h :: ResponseCache where
  "cache_1h =
     \<lparr>ttl = 3600000000,
      cache = [(generate_key ''What is home loan?'' ''knowledge'' None,
                \<lparr>ce_query = ''What is home loan?'', ce_agent_type = ''knowledge'',
                 ce_response = ''A home loan is a secured loan...'', ce_timestamp = 0,
                 ce_filters = None\<rparr>)],
      cache_file = None\<rparr>"




definition world_demo :: world where
  "world_demo =
     \<lparr>chat_completion = (\<lambda>query. Inr ''knowledge''),
      knowledge_agent_query =
        (\<lambda>question n_results filters.
           if question = ''boom'' then Inl (Exception ''retrieval failed'')
           else Inr \<lparr>kr_answer = ''You need PAN card, Aadhaar, salary slips...'', kr_sources = []\<rparr>),
      marketing_generate_campaign = (\<lambda>campaign_type target_audience. Inl (Exception ''unavailable''))\<rparr>"


definition dispatch_of :: "string \<Rightarrow> int \<Rightarrow> dispatch" where
  "dispatch_of q t =
     \<lparr>d_query = q, d_session_id = ''s1'', d_n_results = 3, d_filters = None, d_now = t,
      d_elapsed = 3 / 2\<rparr>"

definition sup_hit :: SupervisorAgent where
  "sup_hit =
     (SupervisorAgent_init True True True True [] None [] [] 0)
       \<lparr>response_cache :=
          \<lparr>ttl = 86400000000,
           cache = [(generate_key ''What is home loan?'' ''any'' None,
                     \<lparr>ce_query = ''What is home loan?'', ce_agent_type = ''any'',
                      ce_response = ''A home loan is a secured loan...'', ce_timestamp = 0,
                      ce_filters = None\<rparr>)],
           cache_file = None\<rparr>\<rparr>"

definition feedback_of :: "int \<Rightarrow> string \<Rightarrow> int \<Rightarrow> feedback_entry" where
  "feedback_of i agent_type rating =
     \<lparr>fb_id = i, fb_timestamp = i, fb_session_id = ''user'', fb_query = ''q'', fb_response = ''r'',
      fb_rating = rating, fb_comment = [], fb_agent_type = agent_type\<rparr>"

definition collector_demo :: FeedbackCollector where
  "collector_demo =
     \<lparr>feedbacks = [feedback_of 1 ''knowledge'' 5, feedback_of 2 ''marketing'' 4,
                   feedback_of 3 ''knowledge'' 2],
      feedback_file = []\<rparr>"

definition filters_a :: "(string \<times> json) list" where
  "filters_a = [(''loan_type'', JStr ''home_loan''), (''doc_type'', JStr ''eligibility'')]"


definition world_cls :: world where
  "world_cls =
     \<lparr>chat_completion =
        (\<lambda>query. if query = ''Create email campaign'' then Inr ''  MARKETING.''
                  else if query = ''crash'' then Inl (Exception ''rate limit'')
                  else Inr ''I think: knowledge''),
      knowledge_agent_query = (\<lambda>question n_results filters. Inl (Exception ''unavailable'')),
      marketing_generate_campaign = (\<lambda>campaign_type target_audience. Inl (Exception ''unavailable''))\<rparr>"

definition q_docs :: string where
  "q_docs = ''What documents are needed for a salaried home loan?''"

definition sup_all :: SupervisorAgent where
  "sup_all = SupervisorAgent_init True True True True [] None [] [] 0"

definition call_of :: "string \<Rightarrow> int \<Rightarrow> add_call" where
  "call_of u t =
     \<lparr>a_user = u, a_agent = ''ok'', a_agent_type = ''knowledge'', a_metadata = None, a_now = t\<rparr>"

section \<open>The response cache: expiry\<close>

text \<open>
  Claim C5. If the cache holds an entry under the fingerprint of a request, then a \<open>get\<close>
  of that request at a time when the entry's age \<open>now - timestamp\<close> exceeds the time to
  live returns \<open>None\<close> and leaves a cache from which exactly that entry is deleted, so
  that the fingerprint is no longer a key; and a \<open>get\<close> while the age is within the time
  to live returns the stored response and leaves the cache as it is.
\<close>

theorem cache_get_ttl:
  assumes "map_of (cache c) (generate_key query agent_type filters) = Some entry"
  shows "(now - ce_timestamp entry > ttl c \<longrightarrow>
            fst (ResponseCache_get c query agent_type filters now) = None
            \<and> cache (snd (ResponseCache_get c query agent_type filters now))
                = AList.delete (generate_key query agent_type filters) (cache c)
            \<and> map_of (cache (snd (ResponseCache_get c query agent_type filters now)))
                  (generate_key query agent_type filters) = None)
       \<and> (now - ce_timestamp entry \<le> ttl c \<longrightarrow>
            ResponseCache_get c query agent_type filters now = (Some (ce_response entry), c))"
  using assms by (simp add: ResponseCache_get_def save_cache_def Let_def AList.delete_conv')

text \<open>With a time to live of one hour: an entry written at 0 is gone at 61 minutes and
  served at 60 minutes.\<close>

theorem cache_get_ttl_witness:
  "fst (ResponseCache_get cache_1h ''What is home loan?'' ''knowledge'' None 3660000000) = None
   \<and> cache (snd (ResponseCache_get cache_1h ''What is home loan?'' ''knowledge'' None 3660000000)) = []
   \<and> ResponseCache_get cache_1h ''What is home loan?'' ''knowledge'' None 3600000000
       = (Some ''A home loan is a secured loan...'', cache_1h)"
  using cache_get_ttl [of cache_1h "''What is home loan?''" "''knowledge''" None _ 3660000000]
        cache_get_ttl [of cache_1h "''What is home loan?''" "''knowledge''" None _ 3600000000]
  by (simp add: cache_1h_def)

section \<open>The performance monitor: anomalies\<close>




section \<open>The dispatcher: what the monitor sees\<close>










text \<open>
  Claim C10. A dispatch that finds, with the cache enabled, a non-empty response within
  its time to live under the fingerprint of the query and the tag \<open>any\<close>, returns the
  dictionary tagged \<open>agent = 'cached'\<close> with \<open>from_cache = True\<close> and calls no
  collaborator; with monitoring enabled, the entry it logs has agent type \<open>error\<close>,
  response length 0, \<open>success = True\<close> and no error text, because \<open>result\<close> is still
  the empty dictionary when the \<open>finally\<close> block runs.
\<close>

theorem cache_hit_logged_as_error:
  assumes "enable_cache s" and "enable_monitoring s"
    and "map_of (cache (response_cache s)) (generate_key query ''any'' None) = Some entry"
    and "now - ce_timestamp entry \<le> ttl (response_cache s)"
    and "ce_response entry \<noteq> []"
  shows "fst (route_query w s query session_id n_results filters now elapsed)
           = Inr \<lparr>agent = ''cached'', response_type = ''cached'', answer = ce_response entry,
                  from_cache = Some True, campaign = None, sources = None\<rparr>
       \<and> metrics (monitor (snd (route_query w s query session_id n_results filters now elapsed)))
           = metrics (monitor s)
             @ [\<lparr>le_timestamp = now, le_session_id = session_id, le_query = query,
                 le_agent_type = ''error'', le_response_length = 0,
                 le_response_time_seconds = py_round elapsed 3, le_success = True,
                 le_error = None, le_metadata = []\<rparr>]
       \<and> calls (snd (route_query w s query session_id n_results filters now elapsed)) = calls s"
  using assms
  by (simp add: route_query_def route_try_def ResponseCache_get_def Let_def log_query_def)

theorem cache_hit_logged_as_error_witness:
  "enable_cache sup_hit \<and> enable_monitoring sup_hit
   \<and> fst (route_query world_demo sup_hit ''What is home loan?'' ''s1'' 3 None 5000000 (1 / 100))
        = Inr \<lparr>agent = ''cached'', response_type = ''cached'',
               answer = ''A home loan is a secured loan...'',
               from_cache = Some True, campaign = None, sources = None\<rparr>
   \<and> metrics (monitor (snd (route_query world_demo sup_hit ''What is home loan?'' ''s1'' 3 None
                               5000000 (1 / 100))))
        = [\<lparr>le_timestamp = 5000000, le_session_id = ''s1'', le_query = ''What is home loan?'',
            le_agent_type = ''error'', le_response_length = 0,
            le_response_time_seconds = py_round (1 / 100) 3, le_success = True,
            le_error = None, le_metadata = []\<rparr>]"
  using cache_hit_logged_as_error [of sup_hit "''What is home loan?''" _ 5000000 world_demo
          "''s1''" 3 None "1 / 100"]
  by (simp add: sup_hit_def SupervisorAgent_init_def PerformanceMonitor_init_def)

section \<open>Strings: substrings, stripping and letter case\<close>

lemma starts_with_iff: "starts_with p s \<longleftrightarrow> (\<exists>r. s = p @ r)"
  by (induction p s rule: starts_with.induct) auto

lemma str_contains_iff: "str_contains sub s \<longleftrightarrow> (\<exists>l r. s = l @ sub @ r)"
proof (induction s)
  case Nil
  then show ?case by auto
next
  case (Cons c cs)
  show ?case
  proof
    assume "str_contains sub (c # cs)"
    then consider "starts_with sub (c # cs)" | "str_contains sub cs" by auto
    then show "\<exists>l r. c # cs = l @ sub @ r"
    proof cases
      case 1
      then obtain r where "c # cs = sub @ r" by (auto simp: starts_with_iff)
      then have "c # cs = [] @ sub @ r" by simp
      then show ?thesis by blast
    next
      case 2
      with Cons.IH obtain l r where "cs = l @ sub @ r" by auto
      then have "c # cs = (c # l) @ sub @ r" by simp
      then show ?thesis by blast
    qed
  next
    assume "\<exists>l r. c # cs = l @ sub @ r"
    then obtain l r where lr: "c # cs = l @ sub @ r" by auto
    show "str_contains sub (c # cs)"
    proof (cases l)
      case Nil
      with lr have "starts_with sub (c # cs)" by (auto simp: starts_with_iff)
      then show ?thesis by simp
    next
      case (Cons a l')
      with lr have "cs = l' @ sub @ r" by simp
      with Cons.IH have "str_contains sub cs" by auto
      then show ?thesis by simp
    qed
  qed
qed

lemma isspace_lower: "py_isspace c \<Longrightarrow> py_lower_char c = c"
  by (auto simp: py_isspace_def py_lower_char_def Let_def)

lemma occurrence_after_prefix:
  assumes "\<forall>c\<in>set l. P c" and "\<forall>c\<in>set w. \<not> P c" and "w \<noteq> []" and "l @ x = p @ w @ q"
  shows "\<exists>p'. x = p' @ w @ q"
  using assms
proof (induction l arbitrary: p)
  case Nil
  then show ?case by auto
next
  case (Cons c l)
  show ?case
  proof (cases p)
    case Nil
    with Cons.prems(4) have "c # l @ x = w @ q" by simp
    with Cons.prems(3) have "c \<in> set w" by (cases w) auto
    with Cons.prems(1,2) show ?thesis by auto
  next
    case (Cons c' p')
    with Cons.prems(4) have "l @ x = p' @ w @ q" by simp
    with Cons.IH [of p'] Cons.prems(1,2,3) show ?thesis by auto
  qed
qed

lemma occurrence_before_suffix:
  assumes "\<forall>c\<in>set r. P c" and "\<forall>c\<in>set w. \<not> P c" and "w \<noteq> []" and "x @ r = p @ w @ q"
  shows "\<exists>q'. x = p @ w @ q'"
proof -
  from assms(4) have "rev r @ rev x = rev q @ rev w @ rev p"
    by (metis append_assoc rev_append)
  with occurrence_after_prefix [of "rev r" P "rev w" "rev x" "rev q" "rev p"] assms(1,2,3)
  obtain p' where "rev x = p' @ rev w @ rev p" by auto
  then have "x = p @ w @ rev p'"
    by (metis append_assoc rev_append rev_rev_ident)
  then show ?thesis by blast
qed

lemma strip_decompose:
  "\<exists>l r. s = l @ str_strip s @ r \<and> (\<forall>c\<in>set l. py_isspace c) \<and> (\<forall>c\<in>set r. py_isspace c)"
proof -
  let ?a = "takeWhile py_isspace s"
  let ?t = "dropWhile py_isspace s"
  let ?b = "rev (takeWhile py_isspace (rev ?t))"
  have 1: "s = ?a @ ?t" by simp
  have "?t = rev (takeWhile py_isspace (rev ?t) @ dropWhile py_isspace (rev ?t))"
    by (simp only: takeWhile_dropWhile_id rev_rev_ident)
  then have "?t = rev (dropWhile py_isspace (rev ?t)) @ ?b"
    by (simp only: rev_append)
  then have 2: "?t = str_strip s @ ?b"
    by (simp only: str_strip_def str_rstrip_def str_lstrip_def)
  have 3: "\<forall>c\<in>set ?a. py_isspace c" by (auto dest: set_takeWhileD)
  have 4: "\<forall>c\<in>set ?b. py_isspace c" by (auto dest: set_takeWhileD)
  from 1 2 have "s = ?a @ str_strip s @ ?b" by simp
  with 3 4 show ?thesis by blast
qed

lemma occurrence_in_strip:
  assumes "\<forall>c\<in>set w. \<not> py_isspace c" and "w \<noteq> []"
  shows "(\<exists>p q. str_strip s = p @ w @ q) \<longleftrightarrow> (\<exists>p q. s = p @ w @ q)"
proof -
  obtain l r where d: "s = l @ str_strip s @ r" "\<forall>c\<in>set l. py_isspace c" "\<forall>c\<in>set r. py_isspace c"
    using strip_decompose by blast
  show ?thesis
  proof
    assume "\<exists>p q. str_strip s = p @ w @ q"
    then obtain p q where "str_strip s = p @ w @ q" by auto
    with d(1) have "s = (l @ p) @ w @ (q @ r)" by simp
    then show "\<exists>p q. s = p @ w @ q" by blast
  next
    assume "\<exists>p q. s = p @ w @ q"
    then obtain p q where "s = p @ w @ q" by auto
    with d(1) have "l @ (str_strip s @ r) = p @ w @ q" by simp
    from occurrence_after_prefix [OF d(2) assms(1) assms(2) this]
    obtain p' where "str_strip s @ r = p' @ w @ q" by auto
    from occurrence_before_suffix [OF d(3) assms(1) assms(2) this]
    show "\<exists>p q. str_strip s = p @ w @ q" by blast
  qed
qed

lemma marketing_no_space:
  assumes "str_lower w = ''marketing''"
  shows "(\<forall>c\<in>set w. \<not> py_isspace c) \<and> w \<noteq> []"
proof -
  have "\<forall>c\<in>set (str_lower w). \<not> py_isspace c"
    unfolding assms by (simp add: py_isspace_def)
  then have "\<forall>c\<in>set w. \<not> py_isspace (py_lower_char c)" by (simp add: str_lower_def)
  then have "\<forall>c\<in>set w. \<not> py_isspace c" by (metis isspace_lower)
  moreover from assms have "w \<noteq> []" by (auto simp: str_lower_def)
  ultimately show ?thesis by simp
qed

lemma lower_occurrence:
  "(\<exists>l r. str_lower s = l @ m @ r) \<longleftrightarrow> (\<exists>p w q. s = p @ w @ q \<and> str_lower w = m)"
proof
  assume "\<exists>l r. str_lower s = l @ m @ r"
  then obtain l r where "map py_lower_char s = l @ m @ r" by (auto simp: str_lower_def)
  then have "\<exists>p t. s = p @ t \<and> l = map py_lower_char p \<and> m @ r = map py_lower_char t"
    by (simp only: map_eq_append_conv)
  then obtain p t where pt: "s = p @ t" "m @ r = map py_lower_char t" by blast
  from pt(2) have "\<exists>w q. t = w @ q \<and> m = map py_lower_char w \<and> r = map py_lower_char q"
    by (simp only: append_eq_map_conv)
  then obtain w q where "t = w @ q" "map py_lower_char w = m" by auto
  with pt(1) have "s = p @ w @ q \<and> str_lower w = m" by (simp add: str_lower_def)
  then show "\<exists>p w q. s = p @ w @ q \<and> str_lower w = m" by blast
next
  assume "\<exists>p w q. s = p @ w @ q \<and> str_lower w = m"
  then obtain p w q where "s = p @ w @ q" "str_lower w = m" by auto
  then have "str_lower s = str_lower p @ m @ str_lower q" by (auto simp: str_lower_def)
  then show "\<exists>l r. str_lower s = l @ m @ r" by blast
qed







section \<open>The response cache: fingerprints\<close>







lemma json_dumps_example:
  "json_dumps (JDict filters_a) = ''{'' @ [CHR 0x22] @ ''doc_type'' @ [CHR 0x22] @ '': ''
       @ [CHR 0x22] @ ''eligibility'' @ [CHR 0x22] @ '', '' @ [CHR 0x22] @ ''loan_type'' @ [CHR 0x22]
       @ '': '' @ [CHR 0x22] @ ''home_loan'' @ [CHR 0x22] @ ''}''"
  by code_simp

section \<open>The response cache: statistics\<close>




section \<open>The conversation memory: sliding window\<close>

lemma last_n_append: "last_n n (last_n n xs @ ys) = last_n n (xs @ ys)"
proof (cases "n \<le> length xs")
  case True
  then have "length xs + length ys - (length xs - n + n) + (length xs - n) = length xs + length ys - n"
    by simp
  with True show ?thesis by (simp add: last_n_def)
next
  case False
  then show ?thesis by (simp add: last_n_def)
qed

lemma max_history_add_exchange [simp]:
  "max_history (add_exchange m sid u a t md now) = max_history m"
  by (simp add: add_exchange_def save_session_def Let_def AList.update_conv')

lemma get_history_add_exchange:
  assumes "0 < max_history m"
  shows "get_history (add_exchange m sid (a_user a) (a_agent a) (a_agent_type a) (a_metadata a) (a_now a)) sid None
     = last_n (nat (max_history m)) (get_history m sid None @ [exchange_of a])"
  using assms
  by (auto simp: add_exchange_def save_session_def get_history_def Let_def AList.update_conv'
        slice_last_def last_n_def exchange_of_def split: option.splits)

text \<open>With a positive \<open>max_history\<close>, after one or more \<open>add_exchange\<close> calls for a
  session its history is the last \<open>max_history\<close> exchanges of the old history followed by
  the added ones, in the order of the calls.\<close>

lemma sliding_window:
  assumes "0 < max_history m" and "as \<noteq> []"
  shows "get_history (add_exchanges m sid as) sid None
           = last_n (nat (max_history m)) (get_history m sid None @ map exchange_of as)"
  using assms
proof (induction as arbitrary: m)
  case Nil
  then show ?case by simp
next
  case (Cons a as)
  show ?case
  proof (cases "as = []")
    case True
    then show ?thesis using Cons.prems(1) by (simp add: get_history_add_exchange)
  next
    case False
    let ?m = "add_exchange m sid (a_user a) (a_agent a) (a_agent_type a) (a_metadata a) (a_now a)"
    have "get_history (add_exchanges ?m sid as) sid None
            = last_n (nat (max_history ?m)) (get_history ?m sid None @ map exchange_of as)"
      using Cons.IH [of ?m] Cons.prems(1) False by simp
    then show ?thesis
      using Cons.prems(1) by (simp add: get_history_add_exchange last_n_append)
  qed
qed

text \<open>The spec's example: \<open>max_history = 3\<close> and five calls leave the last three.\<close>

lemma sliding_window_example:
  "map ex_user (get_history
      (add_exchanges (ConversationMemory_init 3 []) ''s1''
         [call_of ''q1'' 1, call_of ''q2'' 2, call_of ''q3'' 3, call_of ''q4'' 4, call_of ''q5'' 5])
      ''s1'' None) = [''q3'', ''q4'', ''q5'']"
  by code_simp

text \<open>
  Claim C6 at \<open>max_history = 0\<close>. One \<open>add_exchange\<close> exceeds the bound of zero exchanges,
  and \<open>get_history\<close> then returns that exchange and not the most recent zero: the trimming
  slice \<open>[-0:]\<close> is the whole list.
\<close>

theorem zero_max_history_keeps_exchange:
  "max_history (ConversationMemory_init 0 []) = 0
   \<and> get_history (add_exchange (ConversationMemory_init 0 []) ''s1'' ''hi'' ''hello'' ''knowledge'' None 1)
        ''s1'' None
      = [\<lparr>ex_timestamp = 1, ex_user = ''hi'', ex_agent = ''hello'', ex_agent_type = ''knowledge'',
          ex_metadata = []\<rparr>]"
  by (simp add: ConversationMemory_init_def add_exchange_def get_history_def save_session_def
        slice_last_def Let_def)

section \<open>The feedback collector: aggregates\<close>

text \<open>
  Claim C7 on the three feedbacks of the module's own demonstration: ratings 5 and 2 for
  the knowledge agent and 4 for the marketing agent. Two of the three ratings are at
  least 4 and one is below; \<open>get_feedback_stats\<close> reports \<open>thumbs_up = 1\<close> and
  \<open>thumbs_down = 0\<close>, which count the ratings of the marketing agent alone.
\<close>

theorem thumbs_count_last_agent_only:
  "length (filter (\<lambda>f. fb_rating f \<ge> 4) (feedbacks collector_demo)) = 2
   \<and> length (filter (\<lambda>f. fb_rating f < 4) (feedbacks collector_demo)) = 1
   \<and> map_of (get_feedback_stats collector_demo) ''thumbs_up'' = Some (SInt 1)
   \<and> map_of (get_feedback_stats collector_demo) ''thumbs_down'' = Some (SInt 0)"
  by (simp add: collector_demo_def feedback_of_def get_feedback_stats_def ratings_after_loop_def
        Let_def)

text \<open>The spec's ratings, all for one agent: satisfaction rate 60 and average 3.8.\<close>

lemma feedback_aggregate_example:
  "map_of (get_feedback_stats
      \<lparr>feedbacks = [feedback_of 1 ''knowledge'' 5, feedback_of 2 ''knowledge'' 4,
                    feedback_of 3 ''knowledge'' 2, feedback_of 4 ''knowledge'' 5,
                    feedback_of 5 ''knowledge'' 3], feedback_file = []\<rparr>) ''satisfaction_rate''
     = Some (SNum 60)
   \<and> map_of (get_feedback_stats
      \<lparr>feedbacks = [feedback_of 1 ''knowledge'' 5, feedback_of 2 ''knowledge'' 4,
                    feedback_of 3 ''knowledge'' 2, feedback_of 4 ''knowledge'' 5,
                    feedback_of 5 ''knowledge'' 3], feedback_file = []\<rparr>) ''avg_rating''
     = Some (SNum (19 / 5))"
  by code_simp

section \<open>The query classifier\<close>

text \<open>
  Claim C9. When the language model answers the classification prompt with \<open>content\<close>,
  \<open>classify_query\<close> returns \<open>marketing\<close> if some substring of \<open>content\<close> is
  \<open>marketing\<close> up to letter case, and \<open>knowledge\<close> for every other content.
\<close>

theorem classify_query_marketing_iff:
  assumes "chat_completion w query = Inr content"
  shows "classify_query w query =
           (if \<exists>pre mid post. content = pre @ mid @ post \<and> str_lower mid = ''marketing''
            then Inr ''marketing'' else Inr ''knowledge'')"
proof -
  have "str_contains ''marketing'' (str_lower (str_strip content))
          \<longleftrightarrow> (\<exists>p m q. str_strip content = p @ m @ q \<and> str_lower m = ''marketing'')"
    by (simp only: str_contains_iff lower_occurrence)
  also have "\<dots> \<longleftrightarrow> (\<exists>m. str_lower m = ''marketing'' \<and> (\<exists>p q. str_strip content = p @ m @ q))"
    by blast
  also have "\<dots> \<longleftrightarrow> (\<exists>m. str_lower m = ''marketing'' \<and> (\<exists>p q. content = p @ m @ q))"
    using occurrence_in_strip marketing_no_space by (metis (no_types, lifting))
  also have "\<dots> \<longleftrightarrow> (\<exists>pre mid post. content = pre @ mid @ post \<and> str_lower mid = ''marketing'')"
    by blast
  finally show ?thesis
    using assms by (simp add: classify_query_def Let_def)
qed

lemma classify_examples:
  "classify_query world_cls ''Create email campaign'' = Inr ''marketing''"
  "classify_query world_cls ''What is home loan?'' = Inr ''knowledge''"
  by code_simp+

theorem classify_query_marketing_iff_witness:
  "chat_completion world_cls ''Create email campaign'' = Inr ''  MARKETING.''
   \<and> classify_query world_cls ''Create email campaign'' = Inr ''marketing''
   \<and> (\<exists>pre mid post. ''  MARKETING.'' = pre @ mid @ post \<and> str_lower mid = ''marketing'')
   \<and> chat_completion world_cls ''What is home loan?'' = Inr ''I think: knowledge''
   \<and> classify_query world_cls ''What is home loan?'' = Inr ''knowledge''
   \<and> \<not> (\<exists>pre mid post. ''I think: knowledge'' = pre @ mid @ post \<and> str_lower mid = ''marketing'')"
proof -
  have 1: "chat_completion world_cls ''Create email campaign'' = Inr ''  MARKETING.''"
    by (simp add: world_cls_def)
  have 2: "chat_completion world_cls ''What is home loan?'' = Inr ''I think: knowledge''"
    by (simp add: world_cls_def)
  from classify_query_marketing_iff [OF 1] classify_query_marketing_iff [OF 2] classify_examples 1 2
  show ?thesis by (auto split: if_splits)
qed

section \<open>The dispatcher: a query dispatched twice\<close>

lemma key_any:
  "generate_key ''What documents are needed for a salaried home loan?'' ''any'' None
     = ''88e28c48bf0eb526dc9cb24252f90465''"
  by code_simp

lemma key_knowledge:
  "generate_key ''What documents are needed for a salaried home loan?'' ''knowledge'' None
     = ''acb9a9a2abfcf1362772ef300db754ae''"
  by code_simp

lemma classify_docs:
  "classify_query world_demo ''What documents are needed for a salaried home loan?'' = Inr ''knowledge''"
  by code_simp

lemmas dispatch_defs =
  route_query_def route_try_def route_miss_def invoke_responder_def responder_call_def
  ResponseCache_get_def ResponseCache_set_def save_cache_def add_exchange_def save_session_def
  get_history_def log_query_def SupervisorAgent_init_def ResponseCache_init_def
  ConversationMemory_init_def PerformanceMonitor_init_def FeedbackCollector_init_def
  dispatch_of_def sup_all_def q_docs_def Let_def

lemma knowledge_docs:
  "knowledge_agent_query world_demo ''What documents are needed for a salaried home loan?'' 3 None
     = Inr \<lparr>kr_answer = ''You need PAN card, Aadhaar, salary slips...'', kr_sources = []\<rparr>"
  by (simp add: world_demo_def)

text \<open>
  Claim C1 on the spec's scenario, with every subsystem enabled and nothing on disk. The
  first dispatch classifies the query, calls the knowledge responder once, leaves one
  exchange in the memory of the session and an entry in the cache that
  \<open>get(query, 'knowledge')\<close> finds; \<open>get(query, 'any')\<close>, which is the lookup
  \<open>route_query\<close> makes, does not find it. The second dispatch of the same query therefore
  classifies again and calls the knowledge responder a second time, returns a dictionary
  without \<open>from_cache\<close>, and the memory holds two exchanges.
\<close>

theorem second_dispatch_calls_responder_again:
  "calls (snd (run_dispatches world_demo sup_all [dispatch_of q_docs 1000000]))
     = [Classify q_docs, Knowledge_query q_docs 3 None]
   \<and> length (get_history (memory (snd (run_dispatches world_demo sup_all [dispatch_of q_docs 1000000]))) ''s1'' None) = 1
   \<and> fst (ResponseCache_get
            (response_cache (snd (run_dispatches world_demo sup_all [dispatch_of q_docs 1000000])))
            q_docs ''knowledge'' None 2000000)
       = Some ''You need PAN card, Aadhaar, salary slips...''
   \<and> fst (ResponseCache_get
            (response_cache (snd (run_dispatches world_demo sup_all [dispatch_of q_docs 1000000])))
            q_docs ''any'' None 2000000) = None
   \<and> calls (snd (run_dispatches world_demo sup_all
                    [dispatch_of q_docs 1000000, dispatch_of q_docs 2000000]))
       = [Classify q_docs, Knowledge_query q_docs 3 None, Classify q_docs, Knowledge_query q_docs 3 None]
   \<and> map (map_sum id from_cache) (fst (run_dispatches world_demo sup_all
                    [dispatch_of q_docs 1000000, dispatch_of q_docs 2000000]))
       = [Inr None, Inr None]
   \<and> length (get_history (memory (snd (run_dispatches world_demo sup_all
                    [dispatch_of q_docs 1000000, dispatch_of q_docs 2000000]))) ''s1'' None) = 2"
  by (simp add: dispatch_defs key_any key_knowledge classify_docs knowledge_docs slice_last_def)

end
